theory Spec2Isabelle
  imports Complex_Main
begin

section \<open>Python values and exceptions\<close>

text \<open>
  The exceptions that the playback plugin raises, catches or lets escape. Every
  fallible operation of the model returns \<open>exn + 'a\<close>, with \<open>Inl\<close> the raised
  exception.
\<close>

datatype exn =
  StopIteration | ValueError | SyntaxError | TypeError | KeyError
  | RuntimeError | UnboundLocalError | ZeroDivisionError

text \<open>
  The scalar values a coerced CSV field can hold. A Python \<open>float\<close> is a double; it
  is represented by the rational number that the double denotes. A string is the
  list of its code points, all below 256.
\<close>

datatype pyval = PInt int | PFloat rat | PStr string

section \<open>Doubles\<close>

text \<open>The nearest integer, a tie going to the even one.\<close>

definition round_half_even :: "rat \<Rightarrow> int" where
  "round_half_even x =
     (let f = \<lfloor>x\<rfloor>; d = x - of_int f
      in if d < 1 / 2 then f else if 1 / 2 < d then f + 1 else if even f then f else f + 1)"

text \<open>The position of the leading bit of a positive integer.\<close>

function ilog2 :: "int \<Rightarrow> int" where
  "ilog2 n = (if n < 2 then 0 else 1 + ilog2 (n div 2))"
  by pat_completeness auto
termination
  by (relation "measure nat") auto

definition pow2 :: "int \<Rightarrow> rat" where
  "pow2 e = (if 0 \<le> e then 2 ^ nat e else 1 / 2 ^ nat (- e))"

text \<open>
  The binary exponent of a positive rational \<open>x\<close>: the \<open>e\<close> with
  \<open>2^e \<le> x < 2^(e+1)\<close>. The leading bits of numerator and denominator give it up
  to one.
\<close>

definition floor_log2 :: "rat \<Rightarrow> int" where
  "floor_log2 x =
     (let e0 = ilog2 (fst (quotient_of x)) - ilog2 (snd (quotient_of x))
      in if pow2 e0 \<le> x then e0 else e0 - 1)"

text \<open>
  The double nearest to a rational (IEEE 754 binary64, round to nearest, ties to
  even): the significand has 53 bits. The exponent range is not bounded here, so
  overflow to infinity and the subnormal numbers are left out; the plugin's
  arithmetic stays far from both.
\<close>

definition to_double :: "rat \<Rightarrow> rat" where
  "to_double x =
     (if x = 0 then 0
      else (let u = pow2 (floor_log2 \<bar>x\<bar> - 52) in of_int (round_half_even (x / u)) * u))"

text \<open>\<open>float(i)\<close> of an integer and the quotient \<open>a / b\<close> of two doubles, \<open>b\<close> not zero.\<close>

definition float_of_int :: "int \<Rightarrow> rat" where
  "float_of_int i = to_double (of_int i)"

definition float_div :: "rat \<Rightarrow> rat \<Rightarrow> rat" where
  "float_div a b = to_double (a / b)"

text \<open>
  \<open>round(x, n)\<close> of a double \<open>x\<close> with \<open>n \<ge> 0\<close>: CPython writes \<open>x\<close> in decimal
  with \<open>n\<close> digits after the point, correctly rounded from the exact value of
  the double (a tie to the even digit), and reads the result back as a double.
\<close>

definition py_round :: "rat \<Rightarrow> nat \<Rightarrow> rat" where
  "py_round x n = to_double (of_int (round_half_even (x * 10 ^ n)) / 10 ^ n)"

section \<open>The Python built-ins that \<open>get_data\<close> calls\<close>

definition is_digit :: "char \<Rightarrow> bool" where
  "is_digit c = (c \<in> set ''0123456789'')"

definition digit_val :: "char \<Rightarrow> int" where
  "digit_val c = of_char c - 48"

definition dec :: "string \<Rightarrow> int" where
  "dec ds = fold (\<lambda>c n. 10 * n + digit_val c) ds 0"

text \<open>
  The characters that \<open>int\<close> and \<open>float\<close> skip at both ends of a string: the six
  of C's \<open>isspace\<close>, and the two Unicode spaces from 128 to 255 (U+0085, U+00A0),
  which the conversion turns into blanks first. The separators U+001C to U+001F
  are not skipped.
\<close>

definition is_space :: "char \<Rightarrow> bool" where
  "is_space c =
     (c \<in> set [CHR 0x09, CHR 0x0A, CHR 0x0B, CHR 0x0C, CHR 0x0D, CHR 0x20, CHR 0x85, CHR 0xA0])"

definition strip_space :: "string \<Rightarrow> string" where
  "strip_space s = rev (dropWhile is_space (rev (dropWhile is_space s)))"

text \<open>Groups of decimal digits separated by single underscores.\<close>

fun digits_us :: "string \<Rightarrow> bool" where
  "digits_us [] = False"
| "digits_us [c] = is_digit c"
| "digits_us (c # d # r) =
     (is_digit c \<and> (if d = CHR ''_'' then digits_us r else digits_us (d # r)))"

text \<open>
  \<open>int(s)\<close> for a string \<open>s\<close> in base 10: the space at both ends is skipped, one
  sign is allowed, then decimal digits. Anything else raises \<open>ValueError\<close>. Python
  integers are unbounded.
\<close>

definition py_int :: "string \<Rightarrow> exn + int" where
  "py_int s =
     (let t = strip_space s;
          neg = (case t of c # _ \<Rightarrow> c = CHR ''-'' | [] \<Rightarrow> False);
          body = (case t of c # r \<Rightarrow> if c = CHR ''-'' \<or> c = CHR ''+'' then r else t | [] \<Rightarrow> t)
      in if digits_us body
         then Inr ((if neg then - 1 else 1) * dec (filter is_digit body))
         else Inl ValueError)"

text \<open>The value of the decimal notation \<open>i.f\<close> (either part may be empty).\<close>

definition dec_point :: "string \<Rightarrow> string \<Rightarrow> rat" where
  "dec_point i f = of_int (dec i) + of_int (dec f) / 10 ^ length f"

text \<open>
  \<open>float(s)\<close> on plain decimal notation: optional sign, digits, at most one point,
  with a digit on at least one side of it; the result is the nearest double.
  Exponents, \<open>inf\<close>, \<open>nan\<close> and underscores all contain a character that the
  coercion's regular expression stops before \<open>float\<close> is reached, so they are
  answered with \<open>ValueError\<close> here.
\<close>

definition py_float :: "string \<Rightarrow> exn + rat" where
  "py_float s =
     (let t = strip_space s;
          neg = (case t of c # _ \<Rightarrow> c = CHR ''-'' | [] \<Rightarrow> False);
          body = (case t of c # r \<Rightarrow> if c = CHR ''-'' \<or> c = CHR ''+'' then r else t | [] \<Rightarrow> t);
          i = takeWhile is_digit body;
          r = dropWhile is_digit body;
          sgn = (if neg then - 1 else 1)
      in case r of
           [] \<Rightarrow> if i = [] then Inl ValueError else Inr (sgn * to_double (dec_point i []))
         | c # f \<Rightarrow>
             if c = CHR ''.'' \<and> list_all is_digit f \<and> (i @ f) \<noteq> []
             then Inr (sgn * to_double (dec_point i f)) else Inl ValueError)"

subsection \<open>\<open>ast.literal_eval\<close>\<close>

text \<open>
  The tokens of the Python grammar that can be written with digits, \<open>.\<close> and
  \<open>-\<close> alone: integer and float literals, the minus operator and the ellipsis. A
  lone dot is the attribute operator, which needs a name after it and so is always a
  syntax error here.
\<close>

datatype token = TInt int | TFloat rat | TMinus | TEllipsis

text \<open>
  One number at the head of the input, as CPython's tokenizer reads it: the longest
  run of digits, then a fraction if a point follows. A run of digits with a leading
  zero and a non-zero digit is only legal as the integer part of a float.
\<close>

definition lex_number :: "string \<Rightarrow> (token \<times> string) option" where
  "lex_number s =
     (let i = takeWhile is_digit s; r = dropWhile is_digit s
      in case r of
           [] \<Rightarrow> if hd i = CHR ''0'' \<and> list_ex (\<lambda>c. c \<noteq> CHR ''0'') i then None
                 else Some (TInt (dec i), [])
         | c # r' \<Rightarrow>
             if c = CHR ''.''
             then Some (TFloat (dec_point i (takeWhile is_digit r')), dropWhile is_digit r')
             else if hd i = CHR ''0'' \<and> list_ex (\<lambda>c. c \<noteq> CHR ''0'') i then None
             else Some (TInt (dec i), r))"

text \<open>
  The tokenizer on a string of digits, points and minus signs, with fuel bounding
  the number of tokens (every token consumes at least one character, so
  \<open>length s\<close> is always enough). \<open>None\<close> is a tokenizer error.
\<close>

fun tokenize :: "nat \<Rightarrow> string \<Rightarrow> token list option" where
  "tokenize n [] = Some []"
| "tokenize 0 (c # s) = None"
| "tokenize (Suc n) (c # s) =
     (if c = CHR ''-'' then map_option (Cons TMinus) (tokenize n s)
      else if c = CHR ''.'' then
        (case s of
           d # s' \<Rightarrow>
             if is_digit d
             then map_option (Cons (TFloat (dec_point [] (takeWhile is_digit s))))
                    (tokenize n (dropWhile is_digit s))
             else if d = CHR ''.'' then
               (case s' of
                  e # s'' \<Rightarrow> if e = CHR ''.'' then map_option (Cons TEllipsis) (tokenize n s'')
                              else None
                | [] \<Rightarrow> None)
             else None
         | [] \<Rightarrow> None)
      else if is_digit c then
        (case lex_number (c # s) of
           None \<Rightarrow> None
         | Some (t, r) \<Rightarrow> map_option (Cons t) (tokenize n r))
      else None)"

text \<open>
  The expressions over these tokens: \<open>E ::= atom | - E | E - E\<close>. The flag says
  whether an operand has just been read.
\<close>

fun is_atom :: "token \<Rightarrow> bool" where
  "is_atom TMinus = False"
| "is_atom _ = True"

fun wf_expr :: "bool \<Rightarrow> token list \<Rightarrow> bool" where
  "wf_expr after [] = after"
| "wf_expr after (t # ts) =
     (if is_atom t then (if after then False else wf_expr True ts) else wf_expr False ts)"

text \<open>
  What \<open>ast.literal_eval\<close> returns, as far as \<open>isinstance\<close> tells it apart: an
  \<open>int\<close>, a \<open>float\<close>, or another constant (the \<open>Ellipsis\<close>).
\<close>

datatype literal = LInt int | LFloat rat | LOther

text \<open>
  \<open>ast.literal_eval\<close> on a string of digits, points and minus signs: a string that
  does not parse raises \<open>SyntaxError\<close>; a number with at most one sign in front is
  its value; the ellipsis is a constant; every other expression (a difference, a
  doubly negated number) is a malformed node, which raises \<open>ValueError\<close>.
\<close>

definition literal_eval_plain :: "string \<Rightarrow> exn + literal" where
  "literal_eval_plain v =
     (case tokenize (length v) v of
        None \<Rightarrow> Inl SyntaxError
      | Some ts \<Rightarrow>
          if wf_expr False ts then
            (case ts of
               [TInt i] \<Rightarrow> Inr (LInt i)
             | [TFloat x] \<Rightarrow> Inr (LFloat (to_double x))
             | [TEllipsis] \<Rightarrow> Inr LOther
             | [TMinus, TInt i] \<Rightarrow> Inr (LInt (- i))
             | [TMinus, TFloat x] \<Rightarrow> Inr (LFloat (- to_double x))
             | _ \<Rightarrow> Inl ValueError)
          else Inl SyntaxError)"

text \<open>
  The library functions that are not modelled in full are parameters of the model:
  \<open>ast.literal_eval\<close> on a string that holds any other character (white space,
  control characters, the backslash, code points from 127 on: what the tokenizer
  makes of them depends on the character and on the version of Python), and the
  parser of \<open>datetime.strptime\<close> for a string and a format, its result the number
  of microseconds of the datetime, \<open>None\<close> when the string does not match.
\<close>

record pylib =
  literal_eval_other :: "string \<Rightarrow> exn + literal"
  strptime_parse :: "string \<Rightarrow> string \<Rightarrow> int option"

definition plain :: "string \<Rightarrow> bool" where
  "plain v = list_all (\<lambda>c. c \<in> set ''0123456789.-'') v"

definition literal_eval :: "pylib \<Rightarrow> string \<Rightarrow> exn + literal" where
  "literal_eval lib v = (if plain v then literal_eval_plain v else literal_eval_other lib v)"

section \<open>Field coercion in \<open>Producer.get_data\<close>\<close>

text \<open>
  The character class of the regular expression compiled in \<open>get_data\<close>: the space,
  the punctuation listed there and the ASCII letters. The backslashes of the source
  only escape the brackets and the quote; the backslash itself, the minus sign, the
  point and the digits are not in the class.
\<close>

definition regex_chars :: string where
  "regex_chars =
     [CHR 0x20, CHR 0x60] @ ''~!@#$%^&*()_=+}{][|;:'' @ [CHR 0x22] @ ''<>,?/'' @ [CHR 0x27]
     @ ''ABCDEFGHIJKLMNOPQRSTUVWXYZabcdefghijklmnopqrstuvwxyz''"

definition regex_search :: "string \<Rightarrow> bool" where
  "regex_search v = list_ex (\<lambda>c. c \<in> set regex_chars) v"

definition is_int :: "literal \<Rightarrow> bool" where
  "is_int l = (case l of LInt _ \<Rightarrow> True | _ \<Rightarrow> False)"

definition is_float :: "literal \<Rightarrow> bool" where
  "is_float l = (case l of LFloat _ \<Rightarrow> True | _ \<Rightarrow> False)"

text \<open>
  The body of the \<open>try\<close> in the loop over the fields of a line: the conditional
  expression evaluates \<open>ast.literal_eval(v)\<close>, then \<open>int(v)\<close> or \<open>float(v)\<close> on the
  raw string.
\<close>

definition coerce_try :: "pylib \<Rightarrow> string \<Rightarrow> exn + pyval" where
  "coerce_try lib v =
     (if regex_search v then Inr (PStr v)
      else
        (case literal_eval lib v of
           Inl e \<Rightarrow> Inl e
         | Inr l \<Rightarrow>
             if is_int l then map_sum id PInt (py_int v)
             else if is_float l then map_sum id PFloat (py_float v)
             else Inr (PStr v)))"

text \<open>
  The \<open>try\<close> with its handler: \<open>except ValueError: nv = v\<close>. Any other exception
  leaves the loop.
\<close>

definition coerce :: "pylib \<Rightarrow> string \<Rightarrow> exn + pyval" where
  "coerce lib v =
     (case coerce_try lib v of
        Inl e \<Rightarrow> if e = ValueError then Inr (PStr v) else Inl e
      | Inr nv \<Rightarrow> Inr nv)"

text \<open>
  A line of the \<open>csv.DictReader\<close>: the field names with their cells, in column
  order. A cell is \<open>None\<close> when it is not a string (the reader's \<open>restval\<close> for a row
  shorter than the header); \<open>regex.search\<close> raises \<open>TypeError\<close> on it.
\<close>

type_synonym line = "(string \<times> string option) list"
type_synonym reading = "(string \<times> pyval) list"

text \<open>\<open>new_line.update({k: nv})\<close> on a dictionary kept in insertion order.\<close>

fun dict_update :: "('k \<times> 'v) list \<Rightarrow> 'k \<Rightarrow> 'v \<Rightarrow> ('k \<times> 'v) list" where
  "dict_update [] k v = [(k, v)]"
| "dict_update ((k', v') # d) k v =
     (if k' = k then (k, v) # d else (k', v') # dict_update d k v)"

fun coerce_line :: "pylib \<Rightarrow> reading \<Rightarrow> line \<Rightarrow> exn + reading" where
  "coerce_line lib new_line [] = Inr new_line"
| "coerce_line lib new_line ((k, cell) # l) =
     (case cell of
        None \<Rightarrow> Inl TypeError
      | Some v \<Rightarrow>
          (case coerce lib v of
             Inl e \<Rightarrow> Inl e
           | Inr nv \<Rightarrow> coerce_line lib (dict_update new_line k nv) l))"

section \<open>Configuration\<close>

text \<open>
  The configuration category handed to the plugin (\<open>config\<close>, \<open>handle\<close>): each key
  with the string stored under its \<open>'value'\<close>. A lookup of a missing key raises
  \<open>KeyError\<close>.
\<close>

type_synonym handle = "(string \<times> string) list"

definition hval :: "handle \<Rightarrow> string \<Rightarrow> exn + string" where
  "hval h k = (case map_of h k of None \<Rightarrow> Inl KeyError | Some v \<Rightarrow> Inr v)"

text \<open>\<open>int(handle[k]['value'])\<close>.\<close>

definition hint :: "handle \<Rightarrow> string \<Rightarrow> exn + int" where
  "hint h k = (case hval h k of Inl e \<Rightarrow> Inl e | Inr v \<Rightarrow> py_int v)"

section \<open>\<open>plugin_init\<close>\<close>

text \<open>One \<open>if\<close> of \<open>plugin_init\<close>: log the message and set \<open>errors\<close>.\<close>

definition check :: "bool \<Rightarrow> string \<Rightarrow> bool \<times> string list \<Rightarrow> bool \<times> string list" where
  "check violated msg st = (if violated then (True, snd st @ [msg]) else st)"

definition msg_not_found :: "string \<Rightarrow> string" where
  "msg_not_found csv_file_name = ''csv filename '' @ [CHR 0x22] @ csv_file_name @ [CHR 0x22] @ '' not found''"

definition msg_empty :: string where
  "msg_empty = ''csv filename cannot be empty''"

definition msg_sampleRate :: string where
  "msg_sampleRate = ''sampleRate should be in range 1-1000000''"

definition msg_burstSize :: string where
  "msg_burstSize = ''burstSize should not be less than 1''"

definition msg_burstInterval :: string where
  "msg_burstInterval = ''burstInterval should not be less than 1''"

definition msg_ingestMode :: string where
  "msg_ingestMode =
     ''ingestMode should be one of ('' @ [CHR 0x27] @ ''burst'' @ [CHR 0x27] @ '', ''
     @ [CHR 0x27] @ ''realtime'' @ [CHR 0x27] @ '', '' @ [CHR 0x27] @ ''batch'' @ [CHR 0x27]
     @ '')''"

text \<open>
  \<open>plugin_init\<close>, given the file system's \<open>os.path.isfile\<close> and the data directory
  \<open>_FOGLAMP_DATA\<close>. The result is the messages logged and either the exception
  raised or the copy of the configuration. The checks run in the order of the
  source; a \<open>KeyError\<close> or the \<open>ValueError\<close> of \<open>int\<close> leaves at once, with the
  messages logged so far.
\<close>

definition plugin_init ::
  "(string \<Rightarrow> bool) \<Rightarrow> string \<Rightarrow> handle \<Rightarrow> string list \<times> (exn + handle)" where
  "plugin_init isfile foglamp_data config =
     (let data = config in
      case hval data ''csvFilename'' of
        Inl e \<Rightarrow> ([], Inl e)
      | Inr fname \<Rightarrow>
         (let csv_file_name = foglamp_data @ ''/'' @ fname;
              st1 = check (\<not> isfile csv_file_name) (msg_not_found csv_file_name) (False, []);
              st2 = check (fname = []) msg_empty st1
          in (case hint data ''sampleRate'' of
                Inl e \<Rightarrow> (snd st2, Inl e)
              | Inr sr \<Rightarrow>
                 (let st3 = check (sr < 1 \<or> sr > 1000000) msg_sampleRate st2
                  in (case hint data ''burstSize'' of
                        Inl e \<Rightarrow> (snd st3, Inl e)
                      | Inr bs \<Rightarrow>
                         (let st4 = check (bs < 1) msg_burstSize st3
                          in (case hint data ''burstInterval'' of
                                Inl e \<Rightarrow> (snd st4, Inl e)
                              | Inr bi \<Rightarrow>
                                 (let st5 = check (bi < 1) msg_burstInterval st4
                                  in (case hval data ''ingestMode'' of
                                        Inl e \<Rightarrow> (snd st5, Inl e)
                                      | Inr mode \<Rightarrow>
                                         (let st6 = check (mode \<notin> set [''burst'', ''realtime'', ''batch''])
                                                      msg_ingestMode st5
                                          in if fst st6 then (snd st6, Inl RuntimeError)
                                             else (snd st6, Inr data)))))))))))"

section \<open>The pacing period of \<open>Producer.__init__\<close>\<close>

text \<open>\<open>len(str(i))\<close> for an integer: its decimal digits, and the sign if negative.\<close>

function ndigits :: "int \<Rightarrow> nat" where
  "ndigits n = (if n < 10 then 1 else Suc (ndigits (n div 10)))"
  by pat_completeness auto
termination
  by (relation "measure nat") auto

definition len_str :: "int \<Rightarrow> nat" where
  "len_str i = (if i < 0 then Suc (ndigits (- i)) else ndigits i)"

text \<open>
  The \<open>try\<close> of \<open>Producer.__init__\<close> that sets \<open>self.period\<close>:
  \<open>round(burst_interval / 1000.0, len(str(burst_interval)) + 1)\<close> in burst mode and
  \<open>round(1.0 / recs, len(str(recs)) + 1)\<close> otherwise, in double arithmetic. Only
  \<open>ZeroDivisionError\<close> is handled (a sample rate of 0 gives the period 1.0); a
  \<open>KeyError\<close> or the \<open>ValueError\<close> of \<open>int\<close> leaves the constructor.
\<close>

definition init_period :: "handle \<Rightarrow> exn + rat" where
  "init_period h =
     (case hval h ''ingestMode'' of
        Inl e \<Rightarrow> Inl e
      | Inr mode \<Rightarrow>
          if mode = ''burst'' then
            (case hint h ''burstInterval'' of
               Inl e \<Rightarrow> Inl e
             | Inr burst_interval \<Rightarrow>
                 Inr (py_round (float_div (float_of_int burst_interval) 1000)
                        (len_str burst_interval + 1)))
          else
            (case hint h ''sampleRate'' of
               Inl e \<Rightarrow> Inl e
             | Inr recs \<Rightarrow>
                 if recs = 0 then Inr 1
                 else Inr (py_round (float_div 1 (float_of_int recs)) (len_str recs + 1))))"

section \<open>The Producer\<close>

text \<open>
  The recording as \<open>get_data\<close> sees it after the header has been dealt with: the
  field names (\<open>None\<close> when there is no header row and \<open>fieldNames\<close> is \<open>'None'\<close>)
  and the lines that the \<open>csv.DictReader\<close> yields, in file order. The file is not
  changed during a session.
\<close>

record csv_source =
  field_names :: "string list option"
  data_lines :: "line list"

text \<open>
  A generator object of \<open>get_data\<close>: created but not started, suspended at the
  \<open>yield\<close> with the lines still to read, or finished (it returned, or an exception
  left its body).
\<close>

datatype generator = Created | Suspended "line list" | Finished

text \<open>
  The emission unit \<open>sensor_data\<close>: the dictionary of one record, or the dictionary
  \<open>{"data": burst_data_points}\<close> of a burst.
\<close>

datatype sensor_data = Fields reading | Data "reading list"

definition len_sensor_data :: "sensor_data \<Rightarrow> nat" where
  "len_sensor_data sd = (case sd of Fields r \<Rightarrow> length r | Data _ \<Rightarrow> 1)"

text \<open>
  The attributes of the Producer, the CSV file it opens, and the two local variables
  of \<open>run\<close> that live across iterations of its loop: \<open>eof_reached\<close> and
  \<open>next_iteration_secs\<close>, the latter unbound (\<open>None\<close>) until its first assignment.
  A parsed \<open>datetime\<close> is its number of microseconds.
\<close>

record producer =
  handle :: handle
  period :: rat
  csv_file :: csv_source
  iter_sensor_data :: generator
  reading_cols :: "(string \<times> string) list"
  prv_readings_ts :: "int option"
  eof_reached :: bool
  next_iteration_secs :: "rat option"

text \<open>
  \<open>Producer.__init__\<close>; \<open>json.loads\<close> of \<open>readingCols\<close> is given parsed. The key
  \<open>csvFilename\<close> is read for the file name.
\<close>

definition Producer_init :: "handle \<Rightarrow> csv_source \<Rightarrow> (string \<times> string) list \<Rightarrow> exn + producer" where
  "Producer_init h file cols =
     (case init_period h of
        Inl e \<Rightarrow> Inl e
      | Inr per \<Rightarrow>
          (case hval h ''csvFilename'' of
             Inl e \<Rightarrow> Inl e
           | Inr _ \<Rightarrow>
               (case hval h ''readingCols'' of
                  Inl e \<Rightarrow> Inl e
                | Inr _ \<Rightarrow>
                    Inr \<lparr>handle = h, period = per, csv_file = file, iter_sensor_data = Created,
                         reading_cols = cols, prv_readings_ts = None, eof_reached = False,
                         next_iteration_secs = None\<rparr>)))"

subsection \<open>\<open>get_data\<close>\<close>

text \<open>
  The part of \<open>get_data\<close> before its loop, run by the first \<open>next\<close>: with
  \<open>timestampFromFile\<close> true and no columns picked, every field but the timestamp
  column is picked under its own name (iterating over field names that are \<open>None\<close>
  raises \<open>TypeError\<close>); with columns picked, the update writes back what the copy
  already holds.
\<close>

definition get_data_start :: "producer \<Rightarrow> exn + producer" where
  "get_data_start p =
     (case hval (handle p) ''timestampFromFile'' of
        Inl e \<Rightarrow> Inl e
      | Inr tsff \<Rightarrow>
          if tsff = ''true'' then
            (case hval (handle p) ''timestampCol'' of
               Inl e \<Rightarrow> Inl e
             | Inr ts_col \<Rightarrow>
                 if 0 < length (reading_cols p) then Inr p
                 else
                   (case field_names (csv_file p) of
                      None \<Rightarrow> Inl TypeError
                    | Some names \<Rightarrow>
                        Inr (p\<lparr>reading_cols :=
                               fold (\<lambda>i d. if ts_col \<noteq> i then dict_update d i i else d) names
                                 (reading_cols p)\<rparr>)))
          else Inr p)"

text \<open>
  One step of the loop of \<open>get_data\<close> on the lines left: the end of the file
  finishes the generator (\<open>StopIteration\<close>), an exception of the coercion leaves
  the generator finished, and otherwise the coerced line is yielded.
\<close>

definition get_data_loop :: "pylib \<Rightarrow> producer \<Rightarrow> line list \<Rightarrow> (exn + reading) \<times> producer" where
  "get_data_loop lib p ls =
     (case ls of
        [] \<Rightarrow> (Inl StopIteration, p\<lparr>iter_sensor_data := Finished\<rparr>)
      | l # ls' \<Rightarrow>
          (case coerce_line lib [] l of
             Inl e \<Rightarrow> (Inl e, p\<lparr>iter_sensor_data := Finished\<rparr>)
           | Inr new_line \<Rightarrow> (Inr new_line, p\<lparr>iter_sensor_data := Suspended ls'\<rparr>)))"

text \<open>\<open>next(self.iter_sensor_data)\<close>.\<close>

definition next_reading :: "pylib \<Rightarrow> producer \<Rightarrow> (exn + reading) \<times> producer" where
  "next_reading lib p =
     (case iter_sensor_data p of
        Created \<Rightarrow>
          (case get_data_start p of
             Inl e \<Rightarrow> (Inl e, p\<lparr>iter_sensor_data := Finished\<rparr>)
           | Inr p' \<Rightarrow> get_data_loop lib p' (data_lines (csv_file p')))
      | Suspended ls \<Rightarrow> get_data_loop lib p ls
      | Finished \<Rightarrow> (Inl StopIteration, p))"

subsection \<open>\<open>get_time_stamp_diff\<close>\<close>

text \<open>
  \<open>datetime.datetime.strptime(readings[ts_col], ts_format)\<close>, with the parser of
  the library: a missing column raises \<open>KeyError\<close>, a value coerced to a number
  raises \<open>TypeError\<close>, a string that does not match raises \<open>ValueError\<close>.
\<close>

definition strptime ::
  "pylib \<Rightarrow> reading \<Rightarrow> string \<Rightarrow> string \<Rightarrow> exn + int" where
  "strptime lib readings ts_col ts_format =
     (case map_of readings ts_col of
        None \<Rightarrow> Inl KeyError
      | Some v \<Rightarrow>
          (case v of
             PStr s \<Rightarrow> (case strptime_parse lib s ts_format of None \<Rightarrow> Inl ValueError | Some t \<Rightarrow> Inr t)
           | _ \<Rightarrow> Inl TypeError))"

text \<open>\<open>timedelta.total_seconds()\<close> of the difference of two datetimes.\<close>

definition total_seconds :: "int \<Rightarrow> int \<Rightarrow> rat" where
  "total_seconds t prv = of_int (t - prv) / 1000000"

text \<open>
  \<open>get_time_stamp_diff\<close>: every exception of its body is raised again as
  \<open>RuntimeError\<close>, the previous timestamp left as it was.
\<close>

definition get_time_stamp_diff ::
  "pylib \<Rightarrow> producer \<Rightarrow> reading \<Rightarrow> (exn + rat) \<times> producer" where
  "get_time_stamp_diff lib p readings =
     (case hval (handle p) ''timestampCol'' of
        Inl e \<Rightarrow> (Inl RuntimeError, p)
      | Inr ts_col \<Rightarrow>
          (case hval (handle p) ''timestampFormat'' of
             Inl e \<Rightarrow> (Inl RuntimeError, p)
           | Inr ts_format \<Rightarrow>
               (case strptime lib readings ts_col ts_format of
                  Inl e \<Rightarrow> (Inl RuntimeError, p)
                | Inr readings_ts \<Rightarrow>
                    (Inr (case prv_readings_ts p of
                            None \<Rightarrow> 0
                          | Some prv \<Rightarrow> total_seconds readings_ts prv),
                     p\<lparr>prv_readings_ts := Some readings_ts\<rparr>))))"

text \<open>
  How long \<open>wait_event.wait(timeout)\<close> blocks when nothing sets the event
  meanwhile: not at all when the event is set or the timeout is not positive
  (\<open>threading.Condition.wait\<close> then only polls), else for the timeout.
\<close>

definition event_wait :: "bool \<Rightarrow> rat \<Rightarrow> rat" where
  "event_wait is_set timeout = (if is_set then 0 else if 0 < timeout then timeout else 0)"

subsection \<open>The loop of \<open>run\<close>\<close>

text \<open>
  The module's globals: \<open>BUCKET_SIZE\<close>, the event \<open>wait_event\<close>, and whether
  \<open>producer\<close> and \<open>consumer\<close> hold a thread object.
\<close>

record globals =
  BUCKET_SIZE :: int
  wait_event :: bool
  producer_set :: bool
  consumer_set :: bool

text \<open>An item of the queue: \<open>{'data': sensor_data, 'ts': time_stamp}\<close>.\<close>

type_synonym envelope = "sensor_data \<times> string"

text \<open>
  The queue \<open>bucket\<close> with the condition that guards it: the items queued, the
  \<open>maxsize\<close> it was created with, and whether the Producer thread owns the
  condition's lock. Two histories are kept beside them: the items \<open>put\<close> so far and
  the items the Consumer has handed to \<open>save_data\<close>, both in order.
\<close>

record bucket =
  items :: "envelope list"
  maxsize :: int
  owned :: bool
  pushed :: "envelope list"
  dispatched :: "envelope list"

text \<open>\<open>Queue.full()\<close>: a queue with \<open>maxsize \<le> 0\<close> is never full.\<close>

definition full :: "bucket \<Rightarrow> bool" where
  "full b = (0 < maxsize b \<and> maxsize b \<le> int (length (items b)))"

text \<open>\<open>Queue.put\<close> on a queue that is not full.\<close>

definition put :: "envelope \<Rightarrow> bucket \<Rightarrow> bucket" where
  "put x b = b\<lparr>items := items b @ [x], pushed := pushed b @ [x]\<rparr>"

text \<open>
  Picking the columns of \<open>reading_cols\<close> out of a reading, under their new names,
  and \<open>sensor_data.update(readings)\<close>.
\<close>

definition pick_cols :: "(string \<times> string) list \<Rightarrow> reading \<Rightarrow> reading" where
  "pick_cols cols readings =
     fold (\<lambda>kv d. case map_of readings (fst kv) of None \<Rightarrow> d | Some x \<Rightarrow> dict_update d (snd kv) x)
       cols []"

definition update_all :: "reading \<Rightarrow> reading" where
  "update_all readings = fold (\<lambda>kv d. dict_update d (fst kv) (snd kv)) readings []"

definition select_cols :: "producer \<Rightarrow> reading \<Rightarrow> reading" where
  "select_cols p readings =
     (if 0 < length (reading_cols p) then pick_cols (reading_cols p) readings
      else update_all readings)"

text \<open>
  The \<open>for\<close> loop of a burst: \<open>n\<close> readings are pulled and appended to
  \<open>burst_data_points\<close>. An exception of \<open>next\<close> leaves the loop with the points
  collected so far. With no columns picked the reading itself is appended.
\<close>

fun burst_loop :: "pylib \<Rightarrow> nat \<Rightarrow> producer \<Rightarrow> reading list \<Rightarrow> (exn + unit) \<times> producer \<times> reading list" where
  "burst_loop lib 0 p pts = (Inr (), p, pts)"
| "burst_loop lib (Suc n) p pts =
     (case next_reading lib p of
        (Inl e, p') \<Rightarrow> (Inl e, p', pts)
      | (Inr readings, p') \<Rightarrow>
          burst_loop lib n p'
            (pts @ [if 0 < length (reading_cols p') then pick_cols (reading_cols p') readings
                    else readings]))"

text \<open>
  The body of the \<open>try\<close> of one iteration. The result is whether an exception left
  it, the Producer (with \<open>next_iteration_secs\<close> assigned if the body got that far),
  \<open>sensor_data\<close> and \<open>burst_data_points\<close> as they stand at that moment.
\<close>

definition run_try ::
  "pylib \<Rightarrow> producer \<Rightarrow> (exn + unit) \<times> producer \<times> sensor_data \<times> reading list" where
  "run_try lib p =
     (case hval (handle p) ''ingestMode'' of
        Inl e \<Rightarrow> (Inl e, p, Fields [], [])
      | Inr mode \<Rightarrow>
          if mode = ''burst'' then
            (case hint (handle p) ''burstSize'' of
               Inl e \<Rightarrow> (Inl e, p, Fields [], [])
             | Inr burst_size \<Rightarrow>
                 (case burst_loop lib (nat burst_size) p [] of
                    (Inl e, p', pts) \<Rightarrow> (Inl e, p', Fields [], pts)
                  | (Inr u, p', pts) \<Rightarrow>
                      (Inr (), p'\<lparr>next_iteration_secs := Some (period p')\<rparr>, Data pts, pts)))
          else
            (case next_reading lib p of
               (Inl e, p') \<Rightarrow> (Inl e, p', Fields [], [])
             | (Inr readings, p') \<Rightarrow>
                 (case hval (handle p') ''timestampFromFile'' of
                    Inl e \<Rightarrow> (Inl e, p', Fields (select_cols p' readings), [])
                  | Inr tsff \<Rightarrow>
                      if tsff = ''true'' then
                        (case get_time_stamp_diff lib p' readings of
                           (Inl e, p'') \<Rightarrow> (Inl e, p'', Fields (select_cols p' readings), [])
                         | (Inr c, p'') \<Rightarrow>
                             (Inr (), p''\<lparr>next_iteration_secs := Some c\<rparr>,
                              Fields (select_cols p' readings), []))
                      else
                        (Inr (), p'\<lparr>next_iteration_secs := Some (period p')\<rparr>,
                         Fields (select_cols p' readings), []))))"

text \<open>What the Producer does that another thread or the log can observe.\<close>

datatype event =
  Log string | Wait rat | Acquire | Put envelope | Notify | Release

text \<open>
  The \<open>try\<close> with its two handlers: \<open>StopIteration\<close> sets \<open>eof_reached\<close> and, in
  burst mode, keeps the points collected if there are any; every other exception is
  only logged.
\<close>

definition run_assemble ::
  "pylib \<Rightarrow> producer \<Rightarrow> producer \<times> sensor_data \<times> event list" where
  "run_assemble lib p =
     (case run_try lib p of
        (Inr u, p', sd, pts) \<Rightarrow> (p', sd, [])
      | (Inl e, p', sd, pts) \<Rightarrow>
          if e = StopIteration then
            (p'\<lparr>eof_reached := True\<rparr>,
             (if hval (handle p') ''ingestMode'' = Inr ''burst'' \<and> 0 < length pts then Data pts
              else sd),
             [Log ''playback - EOF reached''])
          else (p', sd, [Log ''playback producer exception'']))"

text \<open>
  How an iteration of the loop of \<open>run\<close> ends: an exception leaves \<open>run\<close> (the
  thread dies), the thread blocks for good in \<open>queue.put\<close> on a full queue while
  it owns the condition, the loop goes round, or \<open>run\<close> returns.
\<close>

datatype outcome =
  Crashed exn producer bucket
  | Blocked producer bucket
  | Looping producer bucket
  | Returned producer bucket

fun bucket_of :: "outcome \<Rightarrow> bucket" where
  "bucket_of (Crashed e p b) = b"
| "bucket_of (Blocked p b) = b"
| "bucket_of (Looping p b) = b"
| "bucket_of (Returned p b) = b"

fun producer_of :: "outcome \<Rightarrow> producer" where
  "producer_of (Crashed e p b) = p"
| "producer_of (Blocked p b) = p"
| "producer_of (Looping p b) = p"
| "producer_of (Returned p b) = p"

fun crash_of :: "outcome \<Rightarrow> exn option" where
  "crash_of (Crashed e p b) = Some e"
| "crash_of _ = None"

text \<open>The iteration ran to its end: it neither raised nor blocked.\<close>

fun completed :: "outcome \<Rightarrow> bool" where
  "completed (Looping p b) = True"
| "completed (Returned p b) = True"
| "completed _ = False"

text \<open>
  The end of an iteration, once the unit is pushed: at the end of the data either a
  new generator is made (\<open>repeatLoop\<close>) or \<open>run\<close> returns.
\<close>

definition run_eof :: "producer \<Rightarrow> bucket \<Rightarrow> outcome" where
  "run_eof p b =
     (if eof_reached p then
        (case hval (handle p) ''repeatLoop'' of
           Inl e \<Rightarrow> Crashed e p b
         | Inr rl \<Rightarrow>
             if rl = ''true'' then Looping (p\<lparr>iter_sensor_data := Created, eof_reached := False\<rparr>) b
             else Returned p b)
      else Looping p b)"

text \<open>
  The lines of an iteration after the wait: the condition is acquired unless the
  Producer owns it already; a unit that is not empty is put (on a full queue
  \<open>put\<close> blocks, and stays blocked since the Consumer cannot get the condition);
  when the queue is full or the data ended the Consumer is notified and the
  condition released.
\<close>

definition run_push :: "string \<Rightarrow> producer \<Rightarrow> sensor_data \<Rightarrow> bucket \<Rightarrow> outcome \<times> event list" where
  "run_push time_stamp p sd b =
     (let ev1 = (if owned b then [] else [Acquire]);
          b1 = b\<lparr>owned := True\<rparr>
      in if 0 < len_sensor_data sd \<and> full b1 then (Blocked p b1, ev1)
         else
           (let b2 = (if 0 < len_sensor_data sd then put (sd, time_stamp) b1 else b1);
                ev2 = ev1 @ (if 0 < len_sensor_data sd then [Put (sd, time_stamp)] else []);
                signal = (full b2 \<or> eof_reached p);
                b3 = (if signal then b2\<lparr>owned := False\<rparr> else b2);
                ev3 = ev2 @ (if signal then [Notify, Release] else [])
            in (run_eof p b3, ev3)))"

text \<open>
  One iteration of the loop of \<open>run\<close>. \<open>elapsed\<close> is \<open>time.time() - time_start\<close> at
  the wait and \<open>time_stamp\<close> is \<open>utils.local_timestamp()\<close> after it. Reading
  \<open>next_iteration_secs\<close> while it is unbound raises \<open>UnboundLocalError\<close>, outside
  every \<open>try\<close>.
\<close>

definition run_iteration ::
  "pylib \<Rightarrow> rat \<Rightarrow> string \<Rightarrow> globals \<Rightarrow> producer \<Rightarrow> bucket
     \<Rightarrow> outcome \<times> event list" where
  "run_iteration lib elapsed time_stamp g p b =
     (case run_assemble lib p of
        (p1, sd, ev) \<Rightarrow>
          (case next_iteration_secs p1 of
             None \<Rightarrow> (Crashed UnboundLocalError p1 b, ev)
           | Some secs \<Rightarrow>
               (case run_push time_stamp p1 sd b of
                  (out, ev') \<Rightarrow> (out, ev @ [Wait (event_wait (wait_event g) (secs - elapsed))] @ ev'))))"

section \<open>The Consumer\<close>

text \<open>
  The inner loop of \<open>Consumer.run\<close>: while the queue is not empty, \<open>get\<close> its first
  item and schedule \<open>save_data\<close> for it.
\<close>

fun drain :: "envelope list \<Rightarrow> envelope list \<Rightarrow> envelope list \<times> envelope list" where
  "drain [] d = ([], d)"
| "drain (x # q) d = drain q (d @ [x])"

text \<open>
  One iteration of the outer loop: acquire the condition (\<open>None\<close>: the Producer owns
  it, the Consumer blocks), drain, notify, release.
\<close>

definition Consumer_iteration :: "bucket \<Rightarrow> bucket option" where
  "Consumer_iteration b =
     (if owned b then None
      else (case drain (items b) (dispatched b) of
              (q, d) \<Rightarrow> Some (b\<lparr>items := q, dispatched := d\<rparr>)))"

section \<open>\<open>plugin_start\<close> and \<open>plugin_shutdown\<close>\<close>

definition initial_globals :: globals where
  "initial_globals = \<lparr>BUCKET_SIZE = 1, wait_event = False, producer_set = False, consumer_set = False\<rparr>"

definition Queue :: "int \<Rightarrow> bucket" where
  "Queue n = \<lparr>items = [], maxsize = n, owned = False, pushed = [], dispatched = []\<rparr>"

text \<open>
  \<open>plugin_start\<close>: the globals after the call and, unless an exception left it, the
  Producer and the queue of the new session. \<open>BUCKET_SIZE\<close> is assigned only when
  \<open>timestampFromFile\<close> is \<open>'false'\<close>.
\<close>

definition plugin_start ::
  "globals \<Rightarrow> handle \<Rightarrow> csv_source \<Rightarrow> (string \<times> string) list
     \<Rightarrow> globals \<times> (exn + producer \<times> bucket)" where
  "plugin_start g h file cols =
     (case hval h ''timestampFromFile'' of
        Inl e \<Rightarrow> (g, Inl e)
      | Inr tsff \<Rightarrow>
          (case (if tsff = ''false'' then hint h ''sampleRate'' else Inr (BUCKET_SIZE g)) of
             Inl e \<Rightarrow> (g, Inl e)
           | Inr n \<Rightarrow>
               (case Producer_init h file cols of
                  Inl e \<Rightarrow> (g\<lparr>BUCKET_SIZE := n\<rparr>, Inl e)
                | Inr p \<Rightarrow>
                    (g\<lparr>BUCKET_SIZE := n, wait_event := False, producer_set := True,
                        consumer_set := True\<rparr>,
                     Inr (p, Queue n)))))"

text \<open>
  \<open>plugin_shutdown\<close>: the event is set and the two globals are cleared.
  \<open>Thread._stop\<close> only marks the thread object as stopped; the thread goes on
  running \<open>run\<close>.
\<close>

definition plugin_shutdown :: "globals \<Rightarrow> globals" where
  "plugin_shutdown g = g\<lparr>wait_event := True, producer_set := False, consumer_set := False\<rparr>"

section \<open>The two threads together\<close>

datatype pstatus = PRunning | PBlocked | PCrashed | PReturned

record system =
  glob :: globals
  prod :: producer
  status :: pstatus
  buck :: bucket

definition after_outcome :: "system \<Rightarrow> outcome \<Rightarrow> system" where
  "after_outcome s out =
     (case out of
        Crashed e p b \<Rightarrow> s\<lparr>prod := p, status := PCrashed, buck := b\<rparr>
      | Blocked p b \<Rightarrow> s\<lparr>prod := p, status := PBlocked, buck := b\<rparr>
      | Looping p b \<Rightarrow> s\<lparr>prod := p, status := PRunning, buck := b\<rparr>
      | Returned p b \<Rightarrow> s\<lparr>prod := p, status := PReturned, buck := b\<rparr>)"

text \<open>
  The interleavings of the session. What each thread does to the queue it does
  while it owns the condition, so an iteration of either loop is one move; the host
  may call \<open>plugin_shutdown\<close> between any two. A move that the thread cannot make
  (the Producer is not running any more, the Consumer waits for the condition) is
  \<open>None\<close>.
\<close>

datatype move = ProducerMove rat string | ConsumerMove | ShutdownMove

fun exec_move :: "pylib \<Rightarrow> move \<Rightarrow> system \<Rightarrow> system option" where
  "exec_move lib (ProducerMove elapsed time_stamp) s =
     (if status s = PRunning
      then Some (after_outcome s
                   (fst (run_iteration lib elapsed time_stamp (glob s) (prod s) (buck s))))
      else None)"
| "exec_move lib ConsumerMove s =
     (case Consumer_iteration (buck s) of None \<Rightarrow> None | Some b \<Rightarrow> Some (s\<lparr>buck := b\<rparr>))"
| "exec_move lib ShutdownMove s = Some (s\<lparr>glob := plugin_shutdown (glob s)\<rparr>)"

fun exec :: "pylib \<Rightarrow> move list \<Rightarrow> system \<Rightarrow> system option" where
  "exec lib [] s = Some s"
| "exec lib (m # ms) s =
     (case exec_move lib m s of None \<Rightarrow> None | Some s' \<Rightarrow> exec lib ms s')"

text \<open>The session that \<open>plugin_start\<close> starts, both threads at the top of their loops.\<close>

definition start_session ::
  "globals \<Rightarrow> handle \<Rightarrow> csv_source \<Rightarrow> (string \<times> string) list \<Rightarrow> system option" where
  "start_session g h file cols =
     (case plugin_start g h file cols of
        (g', Inr (p, b)) \<Rightarrow> Some \<lparr>glob = g', prod = p, status = PRunning, buck = b\<rparr>
      | (g', Inl e) \<Rightarrow> None)"

text \<open>The next iteration of the Producer's loop in a state of the session.\<close>

definition session_iteration ::
  "pylib \<Rightarrow> rat \<Rightarrow> string \<Rightarrow> system \<Rightarrow> outcome \<times> event list" where
  "session_iteration lib elapsed time_stamp s =
     run_iteration lib elapsed time_stamp (glob s) (prod s) (buck s)"

text \<open>
  A schedule run in the first session of a process, started with no columns
  picked.
\<close>

definition run_session ::
  "pylib \<Rightarrow> handle \<Rightarrow> csv_source \<Rightarrow> move list \<Rightarrow> system option" where
  "run_session lib h file ms =
     (case start_session initial_globals h file [] of
        None \<Rightarrow> None
      | Some s \<Rightarrow> exec lib ms s)"

section \<open>Sample inputs\<close>

text \<open>
  A parser for the examples: \<open>strptime\<close> with the format \<open>%H:%M:%S\<close> on
  two-digit fields, the result in microseconds after midnight.
\<close>

definition strptime_hms :: "string \<Rightarrow> string \<Rightarrow> int option" where
  "strptime_hms s fmt =
     (case s of
        [h1, h2, c1, m1, m2, c2, s1, s2] \<Rightarrow>
          if fmt = ''%H:%M:%S'' \<and> c1 = CHR '':'' \<and> c2 = CHR '':''
             \<and> list_all is_digit [h1, h2, m1, m2, s1, s2]
             \<and> dec [h1, h2] < 24 \<and> dec [m1, m2] < 60 \<and> dec [s1, s2] < 62
          then Some (((dec [h1, h2] * 60 + dec [m1, m2]) * 60 + dec [s1, s2]) * 1000000)
          else None
      | _ \<Rightarrow> None)"

text \<open>
  The library for the examples. Their cells hold digits, points and minus signs or
  a character of the regular expression, so \<open>literal_eval_other\<close> is never asked;
  it answers with a syntax error.
\<close>

definition no_other :: "string \<Rightarrow> exn + literal" where
  "no_other v = Inl SyntaxError"

definition sample_lib :: pylib where
  "sample_lib = \<lparr>literal_eval_other = no_other, strptime_parse = strptime_hms\<rparr>"

text \<open>
  The default configuration of the plugin with the ingest mode, the timestamp flag,
  the sample rate, the burst interval, the burst size and the loop flag filled in;
  the timestamp column is \<open>ts\<close>.
\<close>

definition sample_config ::
  "string \<Rightarrow> string \<Rightarrow> string \<Rightarrow> string \<Rightarrow> string \<Rightarrow> string \<Rightarrow> handle" where
  "sample_config mode tsff rate interval bsize rl =
     [(''assetName'', ''sample''), (''csvFilename'', ''some.csv''), (''headerRow'', ''true''),
      (''fieldNames'', ''None''), (''readingCols'', ''{}''), (''timestampFromFile'', tsff),
      (''timestampCol'', ''ts''), (''timestampFormat'', ''%H:%M:%S''), (''ingestMode'', mode),
      (''sampleRate'', rate), (''burstInterval'', interval), (''burstSize'', bsize),
      (''repeatLoop'', rl)]"

text \<open>A recording with the columns \<open>ts\<close> and \<open>v\<close>, one line per pair given.\<close>

definition sample_file :: "(string \<times> string) list \<Rightarrow> csv_source" where
  "sample_file rows =
     \<lparr>field_names = Some [''ts'', ''v''],
      data_lines = map (\<lambda>r. [(''ts'', Some (fst r)), (''v'', Some (snd r))]) rows\<rparr>"

text \<open>A file system in which exactly one path is a regular file.\<close>

definition only_file :: "string \<Rightarrow> string \<Rightarrow> bool" where
  "only_file f path = (path = f)"

text \<open>The \<open>maxsize\<close> of the queue that a call of \<open>plugin_start\<close> created.\<close>

definition session_capacity :: "globals \<times> (exn + producer \<times> bucket) \<Rightarrow> int option" where
  "session_capacity r = (case snd r of Inl e \<Rightarrow> None | Inr pb \<Rightarrow> Some (maxsize (snd pb)))"


section \<open>Properties of the field coercion\<close>

lemma literal_eval_plain_raises:
  "literal_eval_plain v = Inl e \<Longrightarrow> e = SyntaxError \<or> e = ValueError"
  by (auto simp: literal_eval_plain_def split: option.splits if_splits list.splits token.splits)

lemma py_int_raises: "py_int v = Inl e \<Longrightarrow> e = ValueError"
  by (auto simp: py_int_def Let_def split: if_splits)

lemma py_float_raises: "py_float v = Inl e \<Longrightarrow> e = ValueError"
  by (auto simp: py_float_def Let_def split: if_splits list.splits)

lemma coerce_try_plain_raises:
  assumes "plain v" and a: "coerce_try lib v = Inl e"
  shows "e = SyntaxError \<or> e = ValueError"
proof (cases "literal_eval_plain v")
  case (Inl e')
  with assms show ?thesis
    by (auto simp: coerce_try_def literal_eval_def dest: literal_eval_plain_raises split: if_splits)
next
  case (Inr l)
  with assms show ?thesis
    by (cases "py_int v"; cases "py_float v")
       (auto simp: coerce_try_def literal_eval_def dest: py_int_raises py_float_raises
             split: if_splits)
qed

text \<open>
  A string with a character of the regular expression stays a string. From a string
  of digits, points and minus signs the only exception that leaves the coercion is
  \<open>SyntaxError\<close>; the other outcomes are the three kinds of value.
\<close>

lemma coerce_regex_match: "regex_search v \<Longrightarrow> coerce lib v = Inr (PStr v)"
  by (simp add: coerce_def coerce_try_def)

lemma coerce_plain_raises_only_SyntaxError:
  "plain v \<Longrightarrow> coerce lib v = Inl e \<Longrightarrow> e = SyntaxError"
  using coerce_try_plain_raises [of v lib]
  by (auto simp: coerce_def split: sum.splits if_splits)

text \<open>The examples of the specification.\<close>

lemma coerce_examples:
  "coerce lib ''123'' = Inr (PInt 123)"
  "coerce lib ''1.50'' = Inr (PFloat (3 / 2))"
  "coerce lib ''abc'' = Inr (PStr ''abc'')"
  "coerce lib ''12a'' = Inr (PStr ''12a'')"
  "coerce lib ''-3'' = Inr (PInt (- 3))"
  by code_simp+

text \<open>
  C1. Field coercion is meant to be total on raw strings, every anomaly falling back
  to the string itself. On the empty string (an empty CSV cell) \<open>ast.literal_eval\<close>
  raises \<open>SyntaxError\<close>, which the handler \<open>except ValueError\<close> does not catch: the
  exception leaves the coercion and the loop over the fields of the line. The same
  happens for \<open>007\<close> and \<open>1.2.3\<close>.
\<close>

theorem coerce_empty_cell_raises:
  "coerce lib '''' = Inl SyntaxError
   \<and> coerce lib ''007'' = Inl SyntaxError
   \<and> coerce lib ''1.2.3'' = Inl SyntaxError
   \<and> coerce_line lib [] [(''a'', Some ''1''), (''b'', Some ''''), (''c'', Some ''3'')]
       = Inl SyntaxError"
  by code_simp

section \<open>Properties of \<open>plugin_init\<close>\<close>

text \<open>
  C7 (as amended). For a configuration that holds the five keys read, with integers
  in the three numeric ones, \<open>plugin_init\<close> raises \<open>RuntimeError\<close> exactly when
  the file is missing, the file name is empty, \<open>sampleRate\<close> is outside 1..1000000,
  \<open>burstSize\<close> or \<open>burstInterval\<close> is below 1, or \<open>ingestMode\<close> is none of \<open>burst\<close>,
  \<open>realtime\<close> and \<open>batch\<close>; the log holds the message of every violated check, in
  the order of the checks; otherwise the configuration is returned unchanged.
\<close>

theorem plugin_init_raises_iff:
  assumes k1: "hval config ''csvFilename'' = Inr fname"
    and k2: "hint config ''sampleRate'' = Inr sr"
    and k3: "hint config ''burstSize'' = Inr bs"
    and k4: "hint config ''burstInterval'' = Inr bi"
    and k5: "hval config ''ingestMode'' = Inr mode"
  shows "snd (plugin_init isfile dir config) =
           (if \<not> isfile (dir @ ''/'' @ fname) \<or> fname = [] \<or> sr < 1 \<or> 1000000 < sr \<or> bs < 1 \<or> bi < 1
               \<or> mode \<notin> {''burst'', ''realtime'', ''batch''}
            then Inl RuntimeError else Inr config)
         \<and> fst (plugin_init isfile dir config) =
             (if \<not> isfile (dir @ ''/'' @ fname) then [msg_not_found (dir @ ''/'' @ fname)] else [])
             @ (if fname = [] then [msg_empty] else [])
             @ (if sr < 1 \<or> 1000000 < sr then [msg_sampleRate] else [])
             @ (if bs < 1 then [msg_burstSize] else [])
             @ (if bi < 1 then [msg_burstInterval] else [])
             @ (if mode \<notin> {''burst'', ''realtime'', ''batch''} then [msg_ingestMode] else [])"
  unfolding plugin_init_def Let_def
  by (simp add: k1 k2 k3 k4 k5 check_def)

text \<open>
  A configuration with two violations, a sample rate and a burst size of 0: both
  are logged and one \<open>RuntimeError\<close> is raised.
\<close>

theorem plugin_init_raises_iff_witness:
  "hval (sample_config ''batch'' ''false'' ''0'' ''1000'' ''0'' ''false'') ''csvFilename'' = Inr ''some.csv''
   \<and> hint (sample_config ''batch'' ''false'' ''0'' ''1000'' ''0'' ''false'') ''sampleRate'' = Inr 0
   \<and> hint (sample_config ''batch'' ''false'' ''0'' ''1000'' ''0'' ''false'') ''burstSize'' = Inr 0
   \<and> hint (sample_config ''batch'' ''false'' ''0'' ''1000'' ''0'' ''false'') ''burstInterval'' = Inr 1000
   \<and> hval (sample_config ''batch'' ''false'' ''0'' ''1000'' ''0'' ''false'') ''ingestMode'' = Inr ''batch''
   \<and> plugin_init (only_file ''/usr/local/foglamp/data/some.csv'') ''/usr/local/foglamp/data''
        (sample_config ''batch'' ''false'' ''0'' ''1000'' ''0'' ''false'')
      = ([msg_sampleRate, msg_burstSize], Inl RuntimeError)"
proof -
  let ?c = "sample_config ''batch'' ''false'' ''0'' ''1000'' ''0'' ''false''"
  have k1: "hval ?c ''csvFilename'' = Inr ''some.csv''" by code_simp
  have k2: "hint ?c ''sampleRate'' = Inr 0" by code_simp
  have k3: "hint ?c ''burstSize'' = Inr 0" by code_simp
  have k4: "hint ?c ''burstInterval'' = Inr 1000" by code_simp
  have k5: "hval ?c ''ingestMode'' = Inr ''batch''" by code_simp
  from plugin_init_raises_iff [OF k1 k2 k3 k4 k5,
      of "only_file ''/usr/local/foglamp/data/some.csv''" "''/usr/local/foglamp/data''"]
  have "plugin_init (only_file ''/usr/local/foglamp/data/some.csv'') ''/usr/local/foglamp/data'' ?c
        = ([msg_sampleRate, msg_burstSize], Inl RuntimeError)"
    by (simp add: only_file_def prod_eq_iff)
  with k1 k2 k3 k4 k5 show ?thesis by simp
qed

text \<open>
  The claim as stated fails: \<open>realtime\<close> is neither \<open>batch\<close> nor \<open>burst\<close>, and a
  configuration that is valid but for this ingest mode is accepted.
\<close>

theorem plugin_init_accepts_realtime:
  "''realtime'' \<notin> {''batch'', ''burst''}
   \<and> plugin_init (only_file ''/usr/local/foglamp/data/some.csv'') ''/usr/local/foglamp/data''
        (sample_config ''realtime'' ''false'' ''100'' ''1000'' ''1'' ''false'')
      = ([], Inr (sample_config ''realtime'' ''false'' ''100'' ''1000'' ''1'' ''false''))"
  by code_simp

section \<open>Properties of \<open>plugin_start\<close>\<close>

text \<open>
  In the first session of a process the queue has the capacity 1 under timestamp
  replay and the sample rate otherwise.
\<close>

lemma plugin_start_first_session:
  assumes "plugin_start initial_globals h file cols = (g, Inr (p, b))"
    and "hval h ''timestampFromFile'' = Inr tsff"
  shows "tsff = ''true'' \<longrightarrow> maxsize b = 1"
    and "tsff = ''false'' \<longrightarrow> hint h ''sampleRate'' = Inr (maxsize b)"
  using assms
  by (auto simp: plugin_start_def initial_globals_def Queue_def split: sum.splits if_splits)

text \<open>
  C5. The capacity is meant to be 1 whenever timestamp replay is active, whatever
  ran before. A session with \<open>timestampFromFile\<close> false and the sample rate 100
  leaves \<open>BUCKET_SIZE\<close> at 100; after its shutdown, a session with
  \<open>timestampFromFile\<close> true gets a queue of capacity 100, since \<open>plugin_start\<close>
  assigns \<open>BUCKET_SIZE\<close> only in the other case.
\<close>

theorem plugin_start_stale_bucket_size:
  "session_capacity
     (plugin_start
        (plugin_shutdown
           (fst (plugin_start initial_globals
                   (sample_config ''batch'' ''false'' ''100'' ''1000'' ''1'' ''false'')
                   (sample_file [(''10:00:00'', ''1'')]) [])))
        (sample_config ''batch'' ''true'' ''100'' ''1000'' ''1'' ''false'')
        (sample_file [(''10:00:00'', ''1'')]) [])
   = Some 100"
  by code_simp

end
